theory Spec2Isabelle
  imports Main "HOL-Library.Word" "HOL-Library.Signed_Division"
begin

unbundle bit_operations_syntax

section \<open>Machine types and constants\<close>

type_synonym uint8_t = "8 word"
type_synonym uint16_t = "16 word"
type_synonym uint32_t = "32 word"
type_synonym int32_t = "32 word"
type_synonym int64_t = "64 word"
type_synonym size_t = "64 word"

text \<open>
  An \<open>int32_t\<close> is a \<open>32 word\<close>; the signed comparisons of the C++ source read it
  with \<open>sint\<close>, the bit operations work on the word itself. \<open>size_t\<close> is taken as 64 bits.
\<close>

text \<open>
  Modelled from the spec: the macros \<open>ZRTP_WORD_SIZE\<close> and \<open>IDENTIFIER_LEN\<close> are used
  by the sources but declared in headers that are not part of them. The spec fixes the
  ZRTP word at 4 bytes and the ZID at 12 bytes; \<open>ZrtpPacketConfirm.cpp\<close> itself divides
  and multiplies by the literal 4 next to \<open>ZRTP_WORD_SIZE\<close>, and the documentation of
  \<open>ZRtp::getPeerZid\<close> asks for a buffer of 12 bytes.
\<close>

definition ZRTP_WORD_SIZE :: int32_t where
  "ZRTP_WORD_SIZE = 4"

definition IDENTIFIER_LEN :: nat where
  "IDENTIFIER_LEN = 12"

section \<open>Raw memory: \<open>memcpy\<close> and \<open>memcmp\<close>\<close>

text \<open>
  A buffer is a list of bytes. \<open>memcpy dst src n\<close> overwrites the first \<open>n\<close> bytes of
  \<open>dst\<close> with the first \<open>n\<close> bytes of \<open>src\<close>. In C a copy that runs over the end of
  either buffer is undefined; the model returns \<open>None\<close> there, so that every such call
  is a visible branch.
\<close>

definition memcpy :: "uint8_t list \<Rightarrow> uint8_t list \<Rightarrow> nat \<Rightarrow> uint8_t list option" where
  "memcpy dst src n =
     (if n \<le> length dst \<and> n \<le> length src then Some (take n src @ drop n dst) else None)"

text \<open>
  \<open>memcmp a b n\<close> compares the first \<open>n\<close> bytes as unsigned values and returns a
  negative number, zero or a positive number. A buffer with fewer than \<open>n\<close> bytes is
  compared up to its end; in C the read behind it is undefined.
\<close>

fun memcmp :: "uint8_t list \<Rightarrow> uint8_t list \<Rightarrow> nat \<Rightarrow> int" where
  "memcmp (x # xs) (y # ys) (Suc n) =
     (if x < y then - 1 else if y < x then 1 else memcmp xs ys n)"
| "memcmp _ _ _ = 0"

section \<open>The Confirm packet (\<open>ZrtpPacketConfirm.cpp\<close>)\<close>

text \<open>
  Modelled from the spec: the class \<open>ZrtpPacketBase\<close> and the structs \<open>Confirm_t\<close>
  and \<open>ConfirmPacket_t\<close> are declared in headers that are not part of the sources.
  Every packet class derives from \<open>ZrtpPacketBase\<close>, which holds the ZRTP header; of
  the header the sources use the length field only, a count of ZRTP words that
  \<open>setLength\<close> stores and \<open>getLength\<close> reads back. A Confirm packet adds the fields
  that \<open>ZrtpPacketConfirm.cpp\<close> accesses through \<open>confirmHeader\<close>: the two filler
  bytes (\<open>filler[0]\<close> and \<open>filler[1]\<close>), the signature-length byte, the flags and the
  expiry time. \<open>sigBlock\<close> is the rest of the packet's data buffer, starting right
  after \<open>expTime\<close>: the source addresses it as
  \<open>((uint8_t*)&confirmHeader->expTime) + 4\<close>. \<open>sizeof(ConfirmPacket_t)\<close> is 76 bytes,
  the 19 ZRTP words that \<open>isSignatureLengthOk\<close> gives for the fixed part of a Confirm
  packet.
\<close>

record ZrtpPacketBase =
  hdr_length :: uint16_t

record ZrtpPacketConfirm = ZrtpPacketBase +
  filler_0 :: uint8_t
  filler_1 :: uint8_t
  sigLength :: uint8_t
  cf_flags :: uint8_t
  expTime :: uint32_t
  sigBlock :: "uint8_t list"

definition sizeof_ConfirmPacket_t :: size_t where
  "sizeof_ConfirmPacket_t = 76"

definition setLength ::
  "uint16_t \<Rightarrow> 'a ZrtpPacketBase_scheme \<Rightarrow> 'a ZrtpPacketBase_scheme" where
  "setLength len p = p\<lparr>hdr_length := len\<rparr>"

definition getLength :: "'a ZrtpPacketBase_scheme \<Rightarrow> uint16_t" where
  "getLength p = hdr_length p"

text \<open>
  \<open>initialize\<close> clears the whole data buffer with \<open>memset\<close>; \<open>cap\<close> is the number of
  bytes the buffer has behind the fixed part.
\<close>

definition initialize :: "nat \<Rightarrow> ZrtpPacketConfirm" where
  "initialize cap =
     \<lparr>hdr_length = 0, filler_0 = 0, filler_1 = 0, sigLength = 0, cf_flags = 0,
      expTime = 0, sigBlock = replicate cap 0\<rparr>"

text \<open>
  \<open>setSignatureLength\<close>: the guard compares signed; the length is computed in
  \<open>size_t\<close>, the \<open>int\<close> product being converted with sign extension; \<open>setLength\<close>
  takes a \<open>uint16_t\<close>.
\<close>

definition setSignatureLength :: "ZrtpPacketConfirm \<Rightarrow> int32_t \<Rightarrow> bool \<times> ZrtpPacketConfirm" where
  "setSignatureLength p sl =
     (if 512 < sint sl then (False, p)
      else
        let len = sizeof_ConfirmPacket_t + scast (sl * ZRTP_WORD_SIZE);
            p1 = p\<lparr>sigLength := ucast (sl AND 0xff)\<rparr>;
            p2 = (if sl AND 0x100 \<noteq> 0 then p1\<lparr>filler_1 := 1\<rparr> else p1)
        in (True, setLength (ucast (len div 4)) p2))"

definition getSignatureLength :: "ZrtpPacketConfirm \<Rightarrow> int32_t" where
  "getSignatureLength p =
     (let sl = ucast (sigLength p) AND 0xff
      in if filler_1 p = 1 then sl OR 0x100 else sl)"

text \<open>The two constructors that build a packet to send.\<close>

definition ZrtpPacketConfirm_default :: "nat \<Rightarrow> ZrtpPacketConfirm" where
  "ZrtpPacketConfirm_default cap = snd (setSignatureLength (initialize cap) 0)"

definition ZrtpPacketConfirm_sl :: "nat \<Rightarrow> int32_t \<Rightarrow> ZrtpPacketConfirm" where
  "ZrtpPacketConfirm_sl cap sl = snd (setSignatureLength (initialize cap) sl)"

text \<open>
  \<open>setSignatureData\<close>: \<open>length % 4\<close> is the C remainder, which truncates towards
  zero (\<open>smod\<close> on the signed value); the \<open>int32_t\<close> length becomes the \<open>size_t\<close>
  argument of \<open>memcpy\<close> by sign extension. The result is \<open>None\<close> where the copy
  leaves a buffer.
\<close>

definition setSignatureData ::
  "ZrtpPacketConfirm \<Rightarrow> uint8_t list \<Rightarrow> int32_t \<Rightarrow> (bool \<times> ZrtpPacketConfirm) option" where
  "setSignatureData p dataIn len =
     (let l = getSignatureLength p * 4
      in if sint l < sint len \<or> sint len smod 4 \<noteq> 0 then Some (False, p)
         else
           (case memcpy (sigBlock p) dataIn (unat (scast len :: size_t)) of
              None \<Rightarrow> None
            | Some blk \<Rightarrow> Some (True, p\<lparr>sigBlock := blk\<rparr>)))"

definition isSignatureLengthOk :: "ZrtpPacketConfirm \<Rightarrow> bool" where
  "isSignatureLengthOk p =
     (let actualLen = (ucast (getLength p) :: int32_t);
          expectedLen = (19 :: int32_t);
          sigLen = getSignatureLength p
      in expectedLen + sigLen = actualLen)"

section \<open>The DHPart packet (\<open>ZrtpPacketDHPart.h\<close>)\<close>

text \<open>
  The fields behind \<open>DHPartHeader\<close> and \<open>pv\<close> that the accessors of the class return.
\<close>

record ZrtpPacketDHPart = ZrtpPacketBase +
  hashH1 :: "uint8_t list"
  rs1Id :: "uint8_t list"
  rs2Id :: "uint8_t list"
  auxSecretId :: "uint8_t list"
  pbxSecretId :: "uint8_t list"
  pv :: "uint8_t list"

text \<open>
  \<open>isLengthOk\<close>: \<open>getLength()\<close> is a \<open>uint16_t\<close>, promoted to \<open>int\<close> for the
  comparison with 29.
\<close>

definition isLengthOk :: "ZrtpPacketDHPart \<Rightarrow> bool" where
  "isLengthOk p = (29 \<le> uint (getLength p))"

section \<open>The session object (\<open>ZRtp.h\<close>)\<close>

text \<open>
  Modelled from the spec: the class \<open>ZrtpStateEngine\<close> is not part of the sources. The
  spec gives it two timers, T1 with a resend counter, an extended resend counter and a
  cap, T2 with a resend counter and a cap, and their defaults: 20 and 60 resends capped at
  200 ms for T1, 10 resends capped at 1200 ms for T2.
\<close>

record ZrtpStateEngine =
  t1Resend :: int32_t
  t1ResendExtend :: int32_t
  t1Capping :: int32_t
  t2Resend :: int32_t
  t2Capping :: int32_t

definition ZrtpStateEngine_default :: ZrtpStateEngine where
  "ZrtpStateEngine_default =
     \<lparr>t1Resend = 20, t1ResendExtend = 60, t1Capping = 200, t2Resend = 10, t2Capping = 1200\<rparr>"

text \<open>
  Of the members of \<open>ZRtp\<close> the model keeps the state engine, the two ZIDs and the
  session's own \<open>hvi\<close>.
\<close>

record ZRtp =
  stateEngine :: ZrtpStateEngine
  ownZid :: "uint8_t list"
  peerZid :: "uint8_t list"
  hvi :: "uint8_t list"

text \<open>
  A session as the constructor leaves it: default timers, the given own ZID, and the
  zero-initialised arrays \<open>peerZid\<close> and \<open>hvi\<close> (\<open>MAX_DIGEST_LENGTH\<close>, 64 bytes).
\<close>

definition ZRtp_new :: "uint8_t list \<Rightarrow> ZRtp" where
  "ZRtp_new zid =
     \<lparr>stateEngine = ZrtpStateEngine_default, ownZid = zid,
      peerZid = replicate IDENTIFIER_LEN 0, hvi = replicate 64 0\<rparr>"

text \<open>
  \<open>getPeerZid\<close> copies \<open>IDENTIFIER_LEN\<close> bytes of \<open>peerZid\<close> into the caller's
  buffer and returns \<open>IDENTIFIER_LEN\<close>. The result is \<open>None\<close> where the copy leaves
  a buffer.
\<close>

definition getPeerZid :: "ZRtp \<Rightarrow> uint8_t list \<Rightarrow> (int32_t \<times> uint8_t list) option" where
  "getPeerZid z data =
     (case memcpy data (peerZid z) IDENTIFIER_LEN of
        None \<Rightarrow> None
      | Some data' \<Rightarrow> Some (of_nat IDENTIFIER_LEN, data'))"

text \<open>
  Modelled from the spec: the bodies of \<open>ZRtp::setT1Resend\<close>, \<open>setT1ResendExtend\<close>,
  \<open>setT1Capping\<close>, \<open>setT2Resend\<close> and \<open>setT2Capping\<close> are in \<open>ZRtp.cpp\<close>, which is
  not part of the sources; \<open>ZRtp.h\<close> only declares them. The spec: both resend counters
  and caps are host-tunable; counter values below 10 are rejected, capping below 50 ms
  (T1) or below 150 ms (T2) is rejected. A rejected value leaves the setting as it was,
  any other value is stored. The spec puts no condition on the extended resend counter.
\<close>

definition setT1Resend :: "int32_t \<Rightarrow> ZRtp \<Rightarrow> ZRtp" where
  "setT1Resend counter z =
     (if 10 \<le> sint counter
      then z\<lparr>stateEngine := (stateEngine z)\<lparr>t1Resend := counter\<rparr>\<rparr>
      else z)"

definition setT1ResendExtend :: "int32_t \<Rightarrow> ZRtp \<Rightarrow> ZRtp" where
  "setT1ResendExtend counter z = z\<lparr>stateEngine := (stateEngine z)\<lparr>t1ResendExtend := counter\<rparr>\<rparr>"

definition setT1Capping :: "int32_t \<Rightarrow> ZRtp \<Rightarrow> ZRtp" where
  "setT1Capping capping z =
     (if 50 \<le> sint capping
      then z\<lparr>stateEngine := (stateEngine z)\<lparr>t1Capping := capping\<rparr>\<rparr>
      else z)"

definition setT2Resend :: "int32_t \<Rightarrow> ZRtp \<Rightarrow> ZRtp" where
  "setT2Resend counter z =
     (if 10 \<le> sint counter
      then z\<lparr>stateEngine := (stateEngine z)\<lparr>t2Resend := counter\<rparr>\<rparr>
      else z)"

definition setT2Capping :: "int32_t \<Rightarrow> ZRtp \<Rightarrow> ZRtp" where
  "setT2Capping capping z =
     (if 150 \<le> sint capping
      then z\<lparr>stateEngine := (stateEngine z)\<lparr>t2Capping := capping\<rparr>\<rparr>
      else z)"

text \<open>
  Modelled from the spec: the body of \<open>ZRtp::compareCommit\<close> (\<open>ZRtp.cpp\<close>) and the
  state engine that calls it are not part of the sources; \<open>ZRtp.h\<close> declares
  \<open>compareCommit\<close> and documents its result: negative if our Commit is less important,
  positive if it is more important, and 0 "shouldn't happen". The spec: on a Commit
  collision the engine compares the \<open>hvi\<close> values (the nonces in multi-stream mode) as
  big-endian integers; the higher value wins the Initiator role, the loser discards its
  Commit and continues as Responder; equal values are a protocol violation, answered
  with an Error and the transition to Fail.

  \<open>be_val\<close> is the big-endian integer that a byte string denotes. \<open>compareCommit\<close>
  takes the value of our Commit first and that of the received Commit second.
\<close>

fun be_val :: "uint8_t list \<Rightarrow> nat" where
  "be_val [] = 0"
| "be_val (x # xs) = unat x * 256 ^ length xs + be_val xs"

definition compareCommit :: "uint8_t list \<Rightarrow> uint8_t list \<Rightarrow> int" where
  "compareCommit ours theirs =
     (if be_val ours < be_val theirs then - 1
      else if be_val theirs < be_val ours then 1
      else 0)"

datatype collision_outcome = BecomeResponder | StayInitiator | ErrorAndFail

definition commitCollision :: "uint8_t list \<Rightarrow> uint8_t list \<Rightarrow> collision_outcome" where
  "commitCollision ours theirs =
     (let c = compareCommit ours theirs
      in if c < 0 then BecomeResponder
         else if 0 < c then StayInitiator
         else ErrorAndFail)"

section \<open>The ZID cache (\<open>ZIDCacheDb.cpp\<close>)\<close>

subsection \<open>Records\<close>

text \<open>
  Modelled from the spec: the structs \<open>remoteZidRecord_t\<close> and \<open>zidNameRecord_t\<close>, the
  flag \<open>Valid\<close>, the length \<open>RS_LENGTH\<close> and the class \<open>ZIDRecordDb\<close> are declared in
  headers that are not part of the sources. The fields are those that \<open>ZIDCacheDb.cpp\<close>
  reads and writes (\<open>formatOutput\<close> names every field of the remote record); the spec
  lists the same layout, with retained secrets of 32 bytes and a flags bitset whose
  first flag is Valid. A \<open>ZIDRecordDb\<close> wraps one \<open>remoteZidRecord_t\<close>, cleared on
  construction; \<open>setZid\<close> copies \<open>IDENTIFIER_LEN\<close> bytes into the identifier,
  \<open>isValid\<close> tests the Valid flag and \<open>setValid\<close> sets it.

  A ZID argument is a pointer to \<open>IDENTIFIER_LEN\<close> bytes; the model takes the first
  \<open>IDENTIFIER_LEN\<close> bytes of the list it is given.
\<close>

record remoteZidRecord =
  r_identifier :: "uint8_t list"
  flags :: uint32_t
  rs1 :: "uint8_t list"
  rs1LastUse :: int64_t
  rs1Ttl :: int64_t
  rs2 :: "uint8_t list"
  rs2LastUse :: int64_t
  rs2Ttl :: int64_t
  mitmKey :: "uint8_t list"
  mitmLastUse :: int64_t
  secureSince :: int64_t

text \<open>
  The field \<open>identifier\<close> of the remote record is \<open>r_identifier\<close> here, and the
  \<open>flags\<close> of the name record are \<open>nr_flags\<close>. In a \<open>zidNameRecord_t\<close>, \<open>name\<close> points to a character buffer; the model holds the
  buffer's content.
\<close>

record zidNameRecord =
  nr_flags :: uint32_t
  name :: string
  nameLength :: int32_t

type_synonym ZIDRecordDb = remoteZidRecord

definition Valid :: uint32_t where
  "Valid = 0x1"

definition RS_LENGTH :: nat where
  "RS_LENGTH = 32"

definition ZIDRecordDb_new :: ZIDRecordDb where
  "ZIDRecordDb_new =
     \<lparr>r_identifier = replicate IDENTIFIER_LEN 0, flags = 0,
      rs1 = replicate RS_LENGTH 0, rs1LastUse = 0, rs1Ttl = 0,
      rs2 = replicate RS_LENGTH 0, rs2LastUse = 0, rs2Ttl = 0,
      mitmKey = replicate RS_LENGTH 0, mitmLastUse = 0, secureSince = 0\<rparr>"

definition setZid :: "uint8_t list \<Rightarrow> ZIDRecordDb \<Rightarrow> ZIDRecordDb" where
  "setZid zid r = r\<lparr>r_identifier := take IDENTIFIER_LEN zid\<rparr>"

definition getIdentifier :: "ZIDRecordDb \<Rightarrow> uint8_t list" where
  "getIdentifier r = r_identifier r"

definition isValid :: "ZIDRecordDb \<Rightarrow> bool" where
  "isValid r = (flags r AND Valid = Valid)"

definition setValid :: "ZIDRecordDb \<Rightarrow> ZIDRecordDb" where
  "setValid r = r\<lparr>flags := flags r OR Valid\<rparr>"

subsection \<open>The backend operations\<close>

text \<open>
  \<open>cacheOps\<close> is a table of functions that the database backend fills in; the cache
  calls the backend only through it. The model takes the table as a parameter. \<open>'db\<close>
  is the state of an open database, and the handle \<open>zidFile\<close> is \<open>None\<close> for the null
  pointer, \<open>Some db\<close> for an open database with content \<open>db\<close>. An operation that
  writes returns the handle with the new content; an operation that fills a record
  returns the record. The \<open>errorBuffer\<close> that every operation may write a message to
  is left out, as are the return codes that the cache ignores.
\<close>

record 'db dbCacheOps =
  openCache :: "string \<Rightarrow> int \<times> 'db option"
  readLocalZid :: "'db option \<Rightarrow> uint8_t list \<Rightarrow> uint8_t list \<times> 'db option"
  readRemoteZidRecord ::
    "'db option \<Rightarrow> uint8_t list \<Rightarrow> uint8_t list \<Rightarrow> remoteZidRecord \<Rightarrow> remoteZidRecord"
  insertRemoteZidRecord ::
    "'db option \<Rightarrow> uint8_t list \<Rightarrow> uint8_t list \<Rightarrow> remoteZidRecord \<Rightarrow> 'db option"
  updateRemoteZidRecord ::
    "'db option \<Rightarrow> uint8_t list \<Rightarrow> uint8_t list \<Rightarrow> remoteZidRecord \<Rightarrow> 'db option"
  readZidNameRecord ::
    "'db option \<Rightarrow> uint8_t list \<Rightarrow> uint8_t list \<Rightarrow> zidNameRecord \<Rightarrow> zidNameRecord"
  insertZidNameRecord ::
    "'db option \<Rightarrow> uint8_t list \<Rightarrow> uint8_t list \<Rightarrow> zidNameRecord \<Rightarrow> 'db option"
  updateZidNameRecord ::
    "'db option \<Rightarrow> uint8_t list \<Rightarrow> uint8_t list \<Rightarrow> zidNameRecord \<Rightarrow> 'db option"

subsection \<open>The cache object\<close>

record 'db ZIDCacheDb =
  zidFile :: "'db option"
  fileName :: string
  associatedZid :: "uint8_t list"

text \<open>
  \<open>ZIDCacheDb::open\<close> (\<open>open\<close> and \<open>close\<close> carry the class name here). An already
  open cache returns 0 at once. Otherwise the file
  name is stored and the backend opens the database; on success the local ZID is read, on
  failure the handle is closed and cleared. The result is -1 for a null handle, else 1.
\<close>

definition ZIDCacheDb_open ::
  "'db dbCacheOps \<Rightarrow> 'db ZIDCacheDb \<Rightarrow> string \<Rightarrow> int \<times> 'db ZIDCacheDb" where
  "ZIDCacheDb_open cacheOps c nm =
     (if zidFile c \<noteq> None then (0, c)
      else
        let c1 = c\<lparr>fileName := nm\<rparr>;
            (rc, zf) = openCache cacheOps nm;
            c2 = (if rc = 0
                  then (let (zid, zf') = readLocalZid cacheOps zf (associatedZid c1)
                        in c1\<lparr>zidFile := zf', associatedZid := zid\<rparr>)
                  else c1\<lparr>zidFile := None\<rparr>)
        in (if zidFile c2 = None then - 1 else 1, c2))"

definition ZIDCacheDb_close :: "'db ZIDCacheDb \<Rightarrow> 'db ZIDCacheDb" where
  "ZIDCacheDb_close c = (if zidFile c \<noteq> None then c\<lparr>zidFile := None\<rparr> else c)"

text \<open>
  \<open>ZIDCacheDb::getRecord\<close>. The result is the \<open>unique_ptr\<close>: \<open>None\<close> for the empty
  pointer. \<open>now\<close> is the value of \<open>time(nullptr)\<close>.
\<close>

definition getRecord ::
  "'db dbCacheOps \<Rightarrow> int64_t \<Rightarrow> 'db ZIDCacheDb \<Rightarrow> uint8_t list \<Rightarrow>
     ZIDRecordDb option \<times> 'db ZIDCacheDb" where
  "getRecord cacheOps now c zid =
     (let zidRecord = ZIDRecordDb_new
      in if memcmp (associatedZid c) zid IDENTIFIER_LEN = 0 then (None, c)
         else
           let zidRecord1 =
                 readRemoteZidRecord cacheOps (zidFile c) zid (associatedZid c) zidRecord;
               zidRecord2 = setZid zid zidRecord1
           in if \<not> isValid zidRecord2
              then
                let zidRecord3 = setValid zidRecord2;
                    zidRecord4 = zidRecord3\<lparr>secureSince := now\<rparr>;
                    zf = insertRemoteZidRecord cacheOps (zidFile c) zid (associatedZid c)
                           zidRecord4
                in (Some zidRecord4, c\<lparr>zidFile := zf\<rparr>)
              else (Some zidRecord2, c))"

definition saveRecord :: "'db dbCacheOps \<Rightarrow> 'db ZIDCacheDb \<Rightarrow> ZIDRecordDb \<Rightarrow> nat \<times> 'db ZIDCacheDb" where
  "saveRecord cacheOps c zidRecord =
     (1, c\<lparr>zidFile := updateRemoteZidRecord cacheOps (zidFile c) (getIdentifier zidRecord)
                          (associatedZid c) zidRecord\<rparr>)"

text \<open>
  A C string read from a buffer ends before the first NUL character.
\<close>

definition c_str :: "string \<Rightarrow> string" where
  "c_str buf = takeWhile (\<lambda>ch. ch \<noteq> CHR 0x00) buf"



subsection \<open>An in-memory backend\<close>

text \<open>
  Modelled from the spec: the database backend behind \<open>cacheOps\<close> is not part of the
  sources. The spec specifies the cache's abstract contract only: a persistent map from
  peer ZID to record, with one local ZID that is created on first use, and in-memory,
  file-backed and SQL-backed variants of the same operations. This is the in-memory
  variant. Records are kept per pair of local and remote ZID; a read that finds no entry
  clears the flags of the record it was given. The spec calls a peer's name a display
  label and gives it no length: a name is stored as the label the backend is handed, the
  C string that the name record points to, and read back into the caller's buffer up to
  the buffer length the caller gives. An operation on a null handle changes nothing.
  \<open>fresh\<close> is the ZID that the backend creates when the database has none.
\<close>

record memDb =
  localZid :: "uint8_t list option"
  remotes :: "uint8_t list \<times> uint8_t list \<rightharpoonup> remoteZidRecord"
  names :: "uint8_t list \<times> uint8_t list \<rightharpoonup> uint32_t \<times> string"

definition zidKey :: "uint8_t list \<Rightarrow> uint8_t list \<Rightarrow> uint8_t list \<times> uint8_t list" where
  "zidKey localZ remoteZ = (take IDENTIFIER_LEN localZ, take IDENTIFIER_LEN remoteZ)"

definition mem_openCache :: "string \<Rightarrow> int \<times> memDb option" where
  "mem_openCache nm = (0, Some \<lparr>localZid = None, remotes = Map.empty, names = Map.empty\<rparr>)"

definition mem_readLocalZid ::
  "uint8_t list \<Rightarrow> memDb option \<Rightarrow> uint8_t list \<Rightarrow> uint8_t list \<times> memDb option" where
  "mem_readLocalZid fresh zf zid =
     (case zf of
        None \<Rightarrow> (zid, None)
      | Some d \<Rightarrow>
          (case localZid d of
             None \<Rightarrow> (take IDENTIFIER_LEN fresh, Some (d\<lparr>localZid := Some (take IDENTIFIER_LEN fresh)\<rparr>))
           | Some z \<Rightarrow> (z, Some d)))"

definition mem_readRemoteZidRecord ::
  "memDb option \<Rightarrow> uint8_t list \<Rightarrow> uint8_t list \<Rightarrow> remoteZidRecord \<Rightarrow> remoteZidRecord" where
  "mem_readRemoteZidRecord zf remoteZ localZ r =
     (case zf of
        None \<Rightarrow> r
      | Some d \<Rightarrow>
          (case remotes d (zidKey localZ remoteZ) of
             None \<Rightarrow> r\<lparr>flags := 0\<rparr>
           | Some stored \<Rightarrow> stored))"

definition mem_insertRemoteZidRecord ::
  "memDb option \<Rightarrow> uint8_t list \<Rightarrow> uint8_t list \<Rightarrow> remoteZidRecord \<Rightarrow> memDb option" where
  "mem_insertRemoteZidRecord zf remoteZ localZ r =
     (case zf of
        None \<Rightarrow> None
      | Some d \<Rightarrow> Some (d\<lparr>remotes := (remotes d)(zidKey localZ remoteZ \<mapsto> r)\<rparr>))"

definition mem_updateRemoteZidRecord ::
  "memDb option \<Rightarrow> uint8_t list \<Rightarrow> uint8_t list \<Rightarrow> remoteZidRecord \<Rightarrow> memDb option" where
  "mem_updateRemoteZidRecord zf remoteZ localZ r =
     (case zf of
        None \<Rightarrow> None
      | Some d \<Rightarrow>
          (case remotes d (zidKey localZ remoteZ) of
             None \<Rightarrow> Some d
           | Some _ \<Rightarrow> Some (d\<lparr>remotes := (remotes d)(zidKey localZ remoteZ \<mapsto> r)\<rparr>)))"

definition mem_readZidNameRecord ::
  "memDb option \<Rightarrow> uint8_t list \<Rightarrow> uint8_t list \<Rightarrow> zidNameRecord \<Rightarrow> zidNameRecord" where
  "mem_readZidNameRecord zf remoteZ localZ nr =
     (case zf of
        None \<Rightarrow> nr
      | Some d \<Rightarrow>
          (case names d (zidKey localZ remoteZ) of
             None \<Rightarrow> nr\<lparr>nr_flags := 0\<rparr>
           | Some (f, stored) \<Rightarrow>
               (let n = min (nat (sint (nameLength nr))) (min (length stored) (length (name nr)))
                in nr\<lparr>nr_flags := f,
                      name := take n stored @ drop n (name nr),
                      nameLength := of_nat n\<rparr>)))"

definition mem_insertZidNameRecord ::
  "memDb option \<Rightarrow> uint8_t list \<Rightarrow> uint8_t list \<Rightarrow> zidNameRecord \<Rightarrow> memDb option" where
  "mem_insertZidNameRecord zf remoteZ localZ nr =
     (case zf of
        None \<Rightarrow> None
      | Some d \<Rightarrow>
          Some (d\<lparr>names := (names d)(zidKey localZ remoteZ \<mapsto>
                                (nr_flags nr, c_str (name nr)))\<rparr>))"

definition mem_updateZidNameRecord ::
  "memDb option \<Rightarrow> uint8_t list \<Rightarrow> uint8_t list \<Rightarrow> zidNameRecord \<Rightarrow> memDb option" where
  "mem_updateZidNameRecord zf remoteZ localZ nr =
     (case zf of
        None \<Rightarrow> None
      | Some d \<Rightarrow>
          (case names d (zidKey localZ remoteZ) of
             None \<Rightarrow> Some d
           | Some _ \<Rightarrow>
               Some (d\<lparr>names := (names d)(zidKey localZ remoteZ \<mapsto>
                                     (nr_flags nr, c_str (name nr)))\<rparr>)))"

definition memOps :: "uint8_t list \<Rightarrow> memDb dbCacheOps" where
  "memOps fresh =
     \<lparr>openCache = mem_openCache,
      readLocalZid = mem_readLocalZid fresh,
      readRemoteZidRecord = mem_readRemoteZidRecord,
      insertRemoteZidRecord = mem_insertRemoteZidRecord,
      updateRemoteZidRecord = mem_updateRemoteZidRecord,
      readZidNameRecord = mem_readZidNameRecord,
      insertZidNameRecord = mem_insertZidNameRecord,
      updateZidNameRecord = mem_updateZidNameRecord\<rparr>"


subsection \<open>Two endpoints\<close>

text \<open>
  The ZIDs of the spec's scenario S1 (Alice \<open>0x01..0C\<close>, Bob \<open>0x0D..18\<close>), a cache
  object before \<open>open\<close>, Alice's cache after she opened an empty in-memory database,
  and the record and the cache that result when Alice's cache is asked for Bob's record
  at time \<open>now\<close>.
\<close>

definition aliceZid :: "uint8_t list" where
  "aliceZid = [0x01, 0x02, 0x03, 0x04, 0x05, 0x06, 0x07, 0x08, 0x09, 0x0A, 0x0B, 0x0C]"

definition bobZid :: "uint8_t list" where
  "bobZid = [0x0D, 0x0E, 0x0F, 0x10, 0x11, 0x12, 0x13, 0x14, 0x15, 0x16, 0x17, 0x18]"

definition ZIDCacheDb_new :: "'db ZIDCacheDb" where
  "ZIDCacheDb_new = \<lparr>zidFile = None, fileName = [], associatedZid = replicate IDENTIFIER_LEN 0\<rparr>"

definition aliceCache :: "memDb ZIDCacheDb" where
  "aliceCache = snd (ZIDCacheDb_open (memOps aliceZid) ZIDCacheDb_new ''alice.db'')"

definition bobRecord :: "int64_t \<Rightarrow> ZIDRecordDb" where
  "bobRecord now = ZIDRecordDb_new\<lparr>r_identifier := bobZid, flags := Valid, secureSince := now\<rparr>"

definition aliceCacheWithBob :: "int64_t \<Rightarrow> memDb ZIDCacheDb" where
  "aliceCacheWithBob now =
     \<lparr>zidFile = Some \<lparr>localZid = Some aliceZid,
                        remotes = [(aliceZid, bobZid) \<mapsto> bobRecord now],
                        names = Map.empty\<rparr>,
      fileName = ''alice.db'', associatedZid = aliceZid\<rparr>"

section \<open>Signature length of the Confirm packet\<close>

lemma int32_small_take_bit:
  fixes sl :: int32_t
  assumes "0 \<le> sint sl" and "sint sl \<le> 511"
  shows "take_bit 9 sl = sl"
proof -
  have "word_of_int (sint sl) = sl" by simp
  then have "uint sl = sint sl mod 2 ^ 32"
    using uint_word_of_int [of "sint sl", where 'a=32] by simp
  then have "uint sl < 2 ^ 9" using assms by simp
  then have "sl < 2 ^ 9" by (simp add: word_less_alt)
  then have "sl AND mask 9 = sl" by (rule less_mask_eq)
  then show ?thesis by (simp only: take_bit_eq_mask)
qed

lemma bit_256_iff: "bit (256 :: int32_t) n \<longleftrightarrow> n = 8"
proof -
  have "(256 :: int32_t) = 2 ^ 8" by simp
  then have "bit (256 :: int32_t) n \<longleftrightarrow> bit (2 ^ 8 :: int32_t) n" by (simp only:)
  also have "\<dots> \<longleftrightarrow> n = 8" by (simp only: bit_exp_iff) (auto simp add: possible_bit_word)
  finally show ?thesis .
qed

lemma and_256_iff: "(sl :: int32_t) AND 0x100 \<noteq> 0 \<longleftrightarrow> bit sl 8"
  using bit_iff_and_push_bit_not_eq_0 [of sl 8] by simp

lemma sint_eq_uint_small:
  fixes w :: int32_t
  assumes "uint w < 2 ^ 31"
  shows "sint w = uint w"
proof -
  have "sint w = signed_take_bit 31 (uint w)" by (simp add: sint_uint)
  also have "\<dots> = uint w"
  proof (rule signed_take_bit_int_eq_self)
    have "0 \<le> uint w" by simp
    moreover have "- (2 ^ 31) \<le> (0 :: int)" by simp
    ultimately show "- (2 ^ 31) \<le> uint w" by (rule order_trans [rotated])
    show "uint w < 2 ^ 31" by (rule assms)
  qed
  finally show ?thesis .
qed

lemma take_bit_9_uint:
  fixes w :: int32_t
  assumes "take_bit 9 w = w"
  shows "uint w < 512"
proof -
  have "uint (w AND mask 9) < 2 ^ 9" by (rule and_mask_lt_2p)
  then show ?thesis using assms by (simp add: take_bit_eq_mask)
qed

lemma take_bit_9_sint:
  fixes w :: int32_t
  assumes "take_bit 9 w = w"
  shows "0 \<le> sint w \<and> sint w \<le> 511 \<and> sint (w * 4) = 4 * sint w"
proof -
  have u: "uint w < 512" using assms by (rule take_bit_9_uint)
  then have s: "sint w = uint w" by (simp add: sint_eq_uint_small)
  have "uint (w * 4) = uint w * 4 mod 2 ^ 32"
    by (simp add: uint_word_ariths)
  also have "\<dots> = uint w * 4" using u by simp
  finally have u4: "uint (w * 4) = uint w * 4" .
  then have "sint (w * 4) = uint (w * 4)" using u by (simp add: sint_eq_uint_small)
  then show ?thesis using s u u4 by simp
qed

text \<open>The low byte and the 9th bit together give back every value below 512.\<close>

lemma nine_bits_reassembled:
  fixes sl :: int32_t
  assumes "take_bit 9 sl = sl"
  shows "((ucast (ucast (sl AND 0xff) :: uint8_t) :: int32_t) AND 0xff) OR
           (if sl AND 0x100 \<noteq> 0 then 0x100 else 0) = sl"
proof -
  have m255: "(0xff :: int32_t) = mask 8" by (simp add: mask_eq_exp_minus_1)
  have bits: "n < 9" if "bit sl n" for n
  proof -
    from that have "bit (take_bit 9 sl) n" using assms by simp
    then show ?thesis by (simp add: bit_take_bit_iff)
  qed
  have lt: "n < 8 \<or> n = 8 \<or> \<not> n < 9" for n :: nat by arith
  have low: "(ucast (ucast (sl AND mask 8) :: uint8_t) :: int32_t) AND mask 8 = take_bit 8 sl"
    apply (rule bit_eqI)
    apply (simp add: bit_simps)
    apply blast
    done
  have hi: "take_bit 8 sl OR (if bit sl 8 then 0x100 else 0) = sl"
  proof (rule bit_eqI)
    fix n
    show "bit (take_bit 8 sl OR (if bit sl 8 then 0x100 else 0)) n = bit sl n"
    proof (cases "bit sl 8")
      case True
      then show ?thesis using bits [of n] lt [of n] bit_256_iff [of n]
        by (auto simp add: bit_or_iff bit_take_bit_iff)
    next
      case False
      then show ?thesis using bits [of n] lt [of n]
        by (auto simp add: bit_or_iff bit_take_bit_iff)
    qed
  qed
  show ?thesis
    unfolding and_256_iff m255 low by (rule hi)
qed

lemma getSignatureLength_take_bit:
  "take_bit 9 (getSignatureLength p) = getSignatureLength p"
proof -
  have m255: "(0xff :: int32_t) = mask 8" by (simp add: mask_eq_exp_minus_1)
  have a: "take_bit 9 (ucast (sigLength p) AND mask 8 :: int32_t) = ucast (sigLength p) AND mask 8"
    by (rule bit_eqI) (auto simp add: bit_take_bit_iff bit_and_iff bit_mask_iff)
  have b: "take_bit 9 (256 :: int32_t) = 256" by simp
  show ?thesis
    unfolding getSignatureLength_def Let_def m255
    by (simp add: a b take_bit_or del: take_bit_and)
qed

text \<open>The signature length read from any packet is a 9-bit value.\<close>

lemma getSignatureLength_range:
  "0 \<le> sint (getSignatureLength p) \<and> sint (getSignatureLength p) \<le> 511 \<and>
   sint (getSignatureLength p * 4) = 4 * sint (getSignatureLength p)"
  by (rule take_bit_9_sint) (rule getSignatureLength_take_bit)

lemma setSignatureLength_accepts:
  "sint sl \<le> 512 \<Longrightarrow> fst (setSignatureLength p sl) = True"
  by (simp add: setSignatureLength_def Let_def)

lemma setSignatureLength_rejects:
  "512 < sint sl \<Longrightarrow> setSignatureLength p sl = (False, p)"
  by (simp add: setSignatureLength_def)

lemma setSignatureLength_fields:
  assumes "sint sl \<le> 512"
  shows "sigLength (snd (setSignatureLength p sl)) = ucast (sl AND 0xff)"
    and "filler_1 (snd (setSignatureLength p sl)) = (if bit sl 8 then 1 else filler_1 p)"
    and "sigBlock (snd (setSignatureLength p sl)) = sigBlock p"
  using assms by (simp_all add: setSignatureLength_def Let_def setLength_def and_256_iff)

text \<open>
  On a packet whose second filler byte is clear (every freshly initialised packet), each
  signature length from 0 to 511 is accepted and read back unchanged.
\<close>

lemma setSignatureLength_roundtrip_below_512:
  assumes "0 \<le> sint sl" and "sint sl \<le> 511" and "filler_1 p = 0"
  shows "fst (setSignatureLength p sl) = True \<and>
         getSignatureLength (snd (setSignatureLength p sl)) = sl"
proof -
  have le: "sint sl \<le> 512" using assms(2) by simp
  have tb: "take_bit 9 sl = sl" using assms(1,2) by (rule int32_small_take_bit)
  have "getSignatureLength (snd (setSignatureLength p sl)) =
        ((ucast (ucast (sl AND 0xff) :: uint8_t) :: int32_t) AND 0xff) OR
          (if sl AND 0x100 \<noteq> 0 then 0x100 else 0)"
    using assms(3)
    by (simp add: getSignatureLength_def Let_def setSignatureLength_fields [OF le] and_256_iff)
  then show ?thesis
    using nine_bits_reassembled [OF tb] setSignatureLength_accepts [OF le] by simp
qed

text \<open>
  The 9th bit is only ever set, never cleared: a length written over an earlier length of
  256 words or more keeps the old 9th bit.
\<close>

lemma setSignatureLength_keeps_stale_bit:
  "getSignatureLength
     (snd (setSignatureLength (snd (setSignatureLength (initialize cap) 256)) 5)) = 261"
  by (simp add: setSignatureLength_def initialize_def ZRTP_WORD_SIZE_def
      sizeof_ConfirmPacket_t_def setLength_def getSignatureLength_def)

text \<open>
  C1. The claim: every signature length \<open>sl\<close> with \<open>0 \<le> sl \<le> 512\<close> is accepted by
  \<open>setSignatureLength\<close> and read back by \<open>getSignatureLength\<close>. The code at the upper
  end of that range: on a freshly initialised packet \<open>setSignatureLength(512)\<close> returns
  true, stores 0 in the \<open>sigLength\<close> byte and leaves the filler byte clear (512 has
  neither the low eight bits nor the 9th bit set), and \<open>getSignatureLength\<close> then
  returns 0, not 512.
\<close>

theorem setSignatureLength_512_reads_back_0:
  "fst (setSignatureLength (initialize cap) 512) = True \<and>
   sigLength (snd (setSignatureLength (initialize cap) 512)) = 0 \<and>
   filler_1 (snd (setSignatureLength (initialize cap) 512)) = 0 \<and>
   getSignatureLength (snd (setSignatureLength (initialize cap) 512)) = 0"
  by (simp add: setSignatureLength_def initialize_def ZRTP_WORD_SIZE_def
      sizeof_ConfirmPacket_t_def setLength_def getSignatureLength_def)

section \<open>Signature data of the Confirm packet\<close>

lemma size_t_of_nonneg_int32:
  fixes len :: int32_t
  assumes "0 \<le> sint len"
  shows "unat (scast len :: size_t) = nat (sint len)"
proof -
  have lt: "sint len < 2 ^ 31" using sint_lt [of len] by simp
  have "(2 :: int) ^ 31 \<le> 2 ^ 64" by (rule power_increasing) simp_all
  then have lt64: "sint len < 2 ^ 64" using lt by (rule less_le_trans [rotated])
  have "(scast len :: size_t) = word_of_int (sint len)" by (rule scast_eq)
  then have "uint (scast len :: size_t) = sint len mod 2 ^ LENGTH(64)"
    by (simp only: uint_word_of_int)
  also have "\<dots> = sint len mod 2 ^ 64" by simp
  also have "\<dots> = sint len" using assms lt64 by (rule mod_pos_pos_trivial)
  finally show ?thesis by (simp only: unat_eq_nat_uint)
qed

text \<open>
  What the two checks do achieve: \<open>setSignatureData(data, length)\<close> returns false and
  leaves the packet as it is whenever \<open>length\<close> is greater than 4 times the stored
  signature length or is not a multiple of 4; a \<open>length\<close> from 0 up to 4 times the
  stored signature length that is a multiple of 4 is copied to the start of the signature
  block, right after the expiry field, the rest of the block is left alone, and the
  result is true.
\<close>

lemma setSignatureData_checked_copy:
  "(4 * sint (getSignatureLength p) < sint len \<or> sint len smod 4 \<noteq> 0 \<longrightarrow>
      setSignatureData p dataIn len = Some (False, p)) \<and>
   (0 \<le> sint len \<and> sint len \<le> 4 * sint (getSignatureLength p) \<and> sint len smod 4 = 0 \<and>
    nat (sint len) \<le> length dataIn \<and> nat (sint len) \<le> length (sigBlock p) \<longrightarrow>
      setSignatureData p dataIn len =
        Some (True, p\<lparr>sigBlock := take (nat (sint len)) dataIn @ drop (nat (sint len)) (sigBlock p)\<rparr>))"
proof -
  have l: "sint (getSignatureLength p * 4) = 4 * sint (getSignatureLength p)"
    using getSignatureLength_range [of p] by simp
  show ?thesis
    by (auto simp add: setSignatureData_def Let_def l memcpy_def size_t_of_nonneg_int32)
qed

lemma setSignatureData_checked_copy_examples:
  "setSignatureData (ZrtpPacketConfirm_sl 16 2) [1, 2, 3, 4, 5, 6, 7, 8] 8 =
     Some (True, (ZrtpPacketConfirm_sl 16 2)\<lparr>sigBlock := [1, 2, 3, 4, 5, 6, 7, 8, 0, 0, 0, 0, 0, 0, 0, 0]\<rparr>) \<and>
   setSignatureData (ZrtpPacketConfirm_sl 16 2) [1, 2, 3, 4, 5, 6, 7, 8, 9, 10, 11, 12] 12 =
     Some (False, ZrtpPacketConfirm_sl 16 2) \<and>
   setSignatureData (ZrtpPacketConfirm_sl 16 2) [1, 2, 3, 4, 5, 6] 6 =
     Some (False, ZrtpPacketConfirm_sl 16 2)"
proof -
  let ?p = "ZrtpPacketConfirm_sl 16 2"
  have g: "sint (getSignatureLength ?p) = 2"
    by (simp add: ZrtpPacketConfirm_sl_def setSignatureLength_def initialize_def
        ZRTP_WORD_SIZE_def sizeof_ConfirmPacket_t_def setLength_def getSignatureLength_def)
  have b: "sigBlock ?p = replicate 16 0"
    by (simp add: ZrtpPacketConfirm_sl_def setSignatureLength_def initialize_def
        ZRTP_WORD_SIZE_def sizeof_ConfirmPacket_t_def setLength_def)
  have r: "replicate 16 (0 :: uint8_t) = [0, 0, 0, 0, 0, 0, 0, 0, 0, 0, 0, 0, 0, 0, 0, 0]"
    by (simp add: numeral_eq_Suc)
  show ?thesis
    using setSignatureData_checked_copy [of ?p 8 "[1, 2, 3, 4, 5, 6, 7, 8]"]
      setSignatureData_checked_copy [of ?p 12 "[1, 2, 3, 4, 5, 6, 7, 8, 9, 10, 11, 12]"]
      setSignatureData_checked_copy [of ?p 6 "[1, 2, 3, 4, 5, 6]"]
    by (simp add: g b r signed_modulo_int_def)
qed

text \<open>
  C8. The claim: \<open>setSignatureData\<close> returns false and copies nothing when \<open>length\<close>
  is greater than 4 times the stored signature length or not a multiple of 4, and
  otherwise copies exactly \<open>length\<close> bytes and returns true. The code at a negative
  multiple of 4: on a freshly built packet (stored signature length 0) the length -4 is
  not greater than 0 and its remainder by 4 is 0, so both checks pass, and \<open>memcpy\<close> is
  called with -4 converted to \<open>size_t\<close>, a count beyond every buffer: nothing is
  rejected, and no copy of \<open>length\<close> bytes with result true takes place.
\<close>

theorem setSignatureData_negative_length:
  "\<not> 4 * sint (getSignatureLength (ZrtpPacketConfirm_default 2048)) < sint (- 4 :: int32_t) \<and>
   sint (- 4 :: int32_t) smod 4 = 0 \<and>
   setSignatureData (ZrtpPacketConfirm_default 2048) [0, 0, 0, 0] (- 4) = None"
  by (simp add: ZrtpPacketConfirm_default_def setSignatureLength_def initialize_def
        ZRTP_WORD_SIZE_def sizeof_ConfirmPacket_t_def setLength_def getSignatureLength_def
        setSignatureData_def memcpy_def signed_modulo_int_def)

section \<open>Length field of a Confirm packet\<close>

text \<open>
  For each signature length from 0 to 511, \<open>setSignatureLength\<close> sets the header's
  length field to 19 words plus the signature length, which is what
  \<open>isSignatureLengthOk\<close> expects.
\<close>

lemma hdr_length_after_set:
  assumes "0 \<le> sint sl" and "sint sl \<le> 511"
  shows "uint (getLength (snd (setSignatureLength p sl))) = 19 + sint sl"
proof -
  have tb: "take_bit 9 sl = sl" using assms by (rule int32_small_take_bit)
  have u: "uint sl < 512" using tb by (rule take_bit_9_uint)
  have s: "sint sl = uint sl" using u by (simp add: sint_eq_uint_small)
  have s4: "sint (sl * 4) = 4 * sint sl" using take_bit_9_sint [OF tb] by simp
  have n4: "0 \<le> sint (sl * 4)" using s4 assms by simp
  have "unat (scast (sl * 4) :: size_t) = nat (sint (sl * 4))"
    using n4 by (rule size_t_of_nonneg_int32)
  moreover have "uint (scast (sl * 4) :: size_t) = int (unat (scast (sl * 4) :: size_t))"
    by (rule uint_nat)
  ultimately have "uint (scast (sl * 4) :: size_t) = int (nat (sint (sl * 4)))"
    by (simp only:)
  also have "\<dots> = sint (sl * 4)" using n4 by (rule nat_0_le)
  also have "\<dots> = 4 * uint sl" using s4 s by (simp only:)
  finally have c: "uint (scast (sl * 4) :: size_t) = 4 * uint sl" .
  have "uint ((76 :: size_t) + scast (sl * 4)) =
          (uint (76 :: size_t) + uint (scast (sl * 4) :: size_t)) mod 2 ^ LENGTH(64)"
    by (rule uint_word_ariths)
  also have "\<dots> = (76 + 4 * uint sl) mod 2 ^ 64" by (simp add: c)
  also have "\<dots> = 76 + 4 * uint sl" using u by simp
  finally have sum: "uint ((76 :: size_t) + scast (sl * 4)) = 76 + 4 * uint sl" .
  have "uint (((76 :: size_t) + scast (sl * 4)) div 4) =
          uint ((76 :: size_t) + scast (sl * 4)) div uint (4 :: size_t)"
    by (rule uint_div)
  also have "\<dots> = (76 + 4 * uint sl) div 4" by (simp add: sum)
  also have "\<dots> = 19 + uint sl" by simp
  finally have q: "uint (((76 :: size_t) + scast (sl * 4)) div 4) = 19 + uint sl" .
  have "uint (ucast (((76 :: size_t) + scast (sl * 4)) div 4) :: uint16_t)
          = take_bit LENGTH(16) (uint (((76 :: size_t) + scast (sl * 4)) div 4))"
    by (rule unsigned_ucast_eq)
  also have "\<dots> = (19 + uint sl) mod 2 ^ 16"
    by (simp add: q take_bit_eq_mod)
  also have "\<dots> = 19 + uint sl" using u by simp
  finally show ?thesis
    using assms s
    by (simp add: setSignatureLength_def Let_def getLength_def setLength_def
        sizeof_ConfirmPacket_t_def ZRTP_WORD_SIZE_def)
qed

lemma setSignatureLength_length_ok:
  assumes "0 \<le> sint sl" and "sint sl \<le> 511" and "filler_1 p = 0"
  shows "isSignatureLengthOk (snd (setSignatureLength p sl))"
proof -
  let ?p = "snd (setSignatureLength p sl)"
  have tb: "take_bit 9 sl = sl" using assms(1,2) by (rule int32_small_take_bit)
  have u: "uint sl < 512" using tb by (rule take_bit_9_uint)
  have s: "sint sl = uint sl" using u by (simp add: sint_eq_uint_small)
  have g: "getSignatureLength ?p = sl"
    using setSignatureLength_roundtrip_below_512 [OF assms] by simp
  have l: "uint (getLength ?p) = 19 + uint sl"
    using hdr_length_after_set [OF assms(1,2), of p] s by (simp only:)
  have "uint (ucast (getLength ?p) :: int32_t) = take_bit LENGTH(32) (uint (getLength ?p))"
    by (rule unsigned_ucast_eq)
  also have "\<dots> = (19 + uint sl) mod 2 ^ 32" by (simp add: l take_bit_eq_mod)
  also have "\<dots> = 19 + uint sl" using u by simp
  finally have a: "uint (ucast (getLength ?p) :: int32_t) = 19 + uint sl" .
  have "uint (19 + sl) = (uint (19 :: int32_t) + uint sl) mod 2 ^ LENGTH(32)"
    by (rule uint_word_ariths)
  also have "\<dots> = 19 + uint sl" using u by simp
  finally have b: "uint (19 + sl) = 19 + uint sl" .
  have "(19 :: int32_t) + sl = ucast (getLength ?p)"
    by (rule word_uint_eqI) (simp only: a b)
  then show ?thesis
    unfolding isSignatureLengthOk_def Let_def g by simp
qed

section \<open>Length check of the DHPart packet\<close>

text \<open>
  C9. For every DHPart packet, \<open>isLengthOk\<close> is true if and only if the length field of
  the packet's header is at least 29 ZRTP words.
\<close>

theorem isLengthOk_iff: "isLengthOk p \<longleftrightarrow> 29 \<le> unat (hdr_length p)"
  unfolding isLengthOk_def getLength_def uint_nat by linarith

lemma isLengthOk_examples:
  "isLengthOk (setLength 29 p)" "\<not> isLengthOk (setLength 28 p)"
  by (simp_all add: isLengthOk_def getLength_def setLength_def)

section \<open>The peer's ZID\<close>

text \<open>
  C7. \<open>peerZid\<close> is an array of \<open>IDENTIFIER_LEN\<close> bytes, and it holds the peer's ZID once
  the peer's Hello has been processed. For every session and every caller's buffer of
  at least 12 bytes, \<open>getPeerZid\<close> returns 12 and leaves the 12 bytes of \<open>peerZid\<close> at
  the start of the buffer, the bytes behind them untouched.
\<close>

theorem getPeerZid_copies_12:
  assumes "length (peerZid z) = IDENTIFIER_LEN" and "IDENTIFIER_LEN \<le> length data"
  shows "getPeerZid z data = Some (12, peerZid z @ drop 12 data)"
  using assms by (simp add: getPeerZid_def memcpy_def IDENTIFIER_LEN_def)

lemma getPeerZid_buffer:
  assumes "getPeerZid z data = Some (n, data')"
  shows "n = 12 \<and> take 12 data' = take 12 (peerZid z) \<and> drop 12 data' = drop 12 data \<and>
         length data' = length data"
  using assms by (auto simp add: getPeerZid_def memcpy_def IDENTIFIER_LEN_def split: if_splits)

theorem getPeerZid_copies_12_witness:
  "getPeerZid ((ZRtp_new aliceZid)\<lparr>peerZid := bobZid\<rparr>)
     [0, 0, 0, 0, 0, 0, 0, 0, 0, 0, 0, 0, 0xAA, 0xBB] =
   Some (12, [0x0D, 0x0E, 0x0F, 0x10, 0x11, 0x12, 0x13, 0x14, 0x15, 0x16, 0x17, 0x18,
              0xAA, 0xBB])"
  using getPeerZid_copies_12 [of "(ZRtp_new aliceZid)\<lparr>peerZid := bobZid\<rparr>"
      "[0, 0, 0, 0, 0, 0, 0, 0, 0, 0, 0, 0, 0xAA, 0xBB]"]
  by (simp add: IDENTIFIER_LEN_def bobZid_def)

section \<open>Timer settings\<close>

text \<open>
  C5. Every resend counter \<open>c < 10\<close>, negative ones included, leaves the resend counter
  of T1 and of T2 unchanged; every capping value below 50 ms leaves the cap of T1
  unchanged, and every capping value below 150 ms leaves the cap of T2 unchanged. In each
  case the whole session is left as it was.
\<close>

theorem timer_settings_rejected:
  "(sint c < 10 \<longrightarrow> setT1Resend c z = z \<and> setT2Resend c z = z) \<and>
   (sint cap < 50 \<longrightarrow> setT1Capping cap z = z) \<and>
   (sint cap < 150 \<longrightarrow> setT2Capping cap z = z)"
  by (simp add: setT1Resend_def setT2Resend_def setT1Capping_def setT2Capping_def)

theorem timer_settings_rejected_witness:
  "sint (9 :: int32_t) < 10 \<and> sint (- 1 :: int32_t) < 10 \<and>
   sint (49 :: int32_t) < 50 \<and> sint (149 :: int32_t) < 150 \<and>
   setT1Resend 9 (ZRtp_new []) = ZRtp_new [] \<and>
   setT2Resend 9 (ZRtp_new []) = ZRtp_new [] \<and>
   setT1Resend (- 1) (ZRtp_new []) = ZRtp_new [] \<and>
   setT2Resend (- 1) (ZRtp_new []) = ZRtp_new [] \<and>
   setT1Capping 49 (ZRtp_new []) = ZRtp_new [] \<and>
   setT2Capping 149 (ZRtp_new []) = ZRtp_new [] \<and>
   t1Resend (stateEngine (ZRtp_new [])) = 20 \<and>
   t2Resend (stateEngine (ZRtp_new [])) = 10"
  using timer_settings_rejected [of 9 "ZRtp_new []" 49]
    timer_settings_rejected [of "- 1" "ZRtp_new []" 149]
  by (simp add: ZRtp_new_def ZrtpStateEngine_default_def)

text \<open>
  Values that pass the checks are stored: the settings are host-tunable.
\<close>

lemma timer_settings_stored:
  "10 \<le> sint c \<Longrightarrow> t1Resend (stateEngine (setT1Resend c z)) = c"
  "10 \<le> sint c \<Longrightarrow> t2Resend (stateEngine (setT2Resend c z)) = c"
  "t1ResendExtend (stateEngine (setT1ResendExtend c z)) = c"
  "50 \<le> sint cap \<Longrightarrow> t1Capping (stateEngine (setT1Capping cap z)) = cap"
  "150 \<le> sint cap \<Longrightarrow> t2Capping (stateEngine (setT2Capping cap z)) = cap"
  by (simp_all add: setT1Resend_def setT2Resend_def setT1ResendExtend_def setT1Capping_def
      setT2Capping_def)

section \<open>Commit collision\<close>

lemma be_val_step:
  assumes "be_val xs < B" and "unat x + 1 \<le> k"
  shows "unat x * B + be_val xs < k * B"
proof -
  have "unat x * B + be_val xs < unat x * B + B" using assms(1) by simp
  also have "\<dots> = (unat x + 1) * B" by simp
  also have "\<dots> \<le> k * B" using assms(2) by (rule mult_le_mono1)
  finally show ?thesis .
qed

lemma be_val_bound: "be_val xs < 256 ^ length xs"
proof (induction xs)
  case Nil
  show ?case by simp
next
  case (Cons x xs)
  have "unat x < 2 ^ LENGTH(8)" by (rule unsigned_less)
  then have "unat x + 1 \<le> 256" by simp
  with Cons.IH have "unat x * 256 ^ length xs + be_val xs < 256 * 256 ^ length xs"
    by (rule be_val_step)
  then show ?case by simp
qed

lemma be_val_head_less:
  assumes "length xs = length ys" and "x < y"
  shows "be_val (x # xs) < be_val (y # ys)"
proof -
  have "unat x < unat y" using assms(2) by (simp add: word_less_nat_alt)
  then have "unat x + 1 \<le> unat y" by simp
  with be_val_bound have "unat x * 256 ^ length xs + be_val xs < unat y * 256 ^ length xs"
    by (rule be_val_step)
  then show ?thesis using assms(1) by simp
qed

lemma be_val_inj:
  "length xs = length ys \<Longrightarrow> be_val xs = be_val ys \<Longrightarrow> xs = ys"
proof (induction xs ys rule: list_induct2)
  case Nil
  show ?case by simp
next
  case (Cons x xs y ys)
  have "\<not> x < y"
  proof
    assume "x < y"
    then have "be_val (x # xs) < be_val (y # ys)" using Cons.hyps by (rule be_val_head_less [rotated])
    then show False using Cons.prems by simp
  qed
  moreover have "\<not> y < x"
  proof
    assume "y < x"
    then have "be_val (y # ys) < be_val (x # xs)"
      using Cons.hyps [symmetric] by (rule be_val_head_less [rotated])
    then show False using Cons.prems by simp
  qed
  ultimately have "x = y" by simp
  then show ?case using Cons by simp
qed

text \<open>
  The byte-wise comparison of \<open>memcmp\<close> on two strings of the same length is this
  comparison of big-endian integers.
\<close>

lemma memcmp_is_big_endian_order:
  "length a = length b \<Longrightarrow> memcmp a b (length a) = compareCommit a b"
proof (induction a b rule: list_induct2)
  case Nil
  show ?case by (simp add: compareCommit_def)
next
  case (Cons x xs y ys)
  show ?case
  proof (cases "x < y")
    case True
    then have "be_val (x # xs) < be_val (y # ys)"
      using Cons.hyps by (rule be_val_head_less [rotated])
    then show ?thesis using True by (simp add: compareCommit_def)
  next
    case False
    show ?thesis
    proof (cases "y < x")
      case True
      then have "be_val (y # ys) < be_val (x # xs)"
        using Cons.hyps [symmetric] by (rule be_val_head_less [rotated])
      then show ?thesis using True False by (simp add: compareCommit_def)
    next
      case ge: False
      then have "x = y" using False by simp
      then show ?thesis using Cons by (simp add: compareCommit_def)
    qed
  qed
qed

text \<open>
  C4. When both sides have sent a Commit and the two \<open>hvi\<close> values are equal,
  \<open>compareCommit\<close> yields 0 and the engine sends an Error and fails. On \<open>hvi\<close> values
  of the same length that differ, the comparison is never 0, it is negative exactly when
  our value is the smaller big-endian integer and positive exactly when it is the larger,
  the two sides reach opposite verdicts, the order is transitive, and the side with the
  higher value stays Initiator while the other becomes Responder.
\<close>

theorem commit_collision_resolved:
  "(compareCommit h h = 0 \<and> commitCollision h h = ErrorAndFail) \<and>
   (length a = length b \<and> a \<noteq> b \<longrightarrow>
      compareCommit a b \<noteq> 0 \<and>
      (compareCommit a b < 0 \<longleftrightarrow> 0 < compareCommit b a) \<and>
      (compareCommit a b < 0 \<longleftrightarrow> be_val a < be_val b) \<and>
      (0 < compareCommit a b \<longleftrightarrow> be_val b < be_val a) \<and>
      (commitCollision a b = StayInitiator \<longleftrightarrow> be_val b < be_val a) \<and>
      (commitCollision a b = BecomeResponder \<longleftrightarrow> be_val a < be_val b) \<and>
      (commitCollision a b = StayInitiator \<longleftrightarrow> commitCollision b a = BecomeResponder)) \<and>
   (compareCommit a b < 0 \<and> compareCommit b c < 0 \<longrightarrow> compareCommit a c < 0)"
proof -
  have ne: "be_val a \<noteq> be_val b" if "length a = length b" "a \<noteq> b"
    using that be_val_inj [of a b] by blast
  have p1: "compareCommit h h = 0 \<and> commitCollision h h = ErrorAndFail"
    by (simp add: compareCommit_def commitCollision_def)
  have p2: "length a = length b \<and> a \<noteq> b \<longrightarrow>
      compareCommit a b \<noteq> 0 \<and>
      (compareCommit a b < 0 \<longleftrightarrow> 0 < compareCommit b a) \<and>
      (compareCommit a b < 0 \<longleftrightarrow> be_val a < be_val b) \<and>
      (0 < compareCommit a b \<longleftrightarrow> be_val b < be_val a) \<and>
      (commitCollision a b = StayInitiator \<longleftrightarrow> be_val b < be_val a) \<and>
      (commitCollision a b = BecomeResponder \<longleftrightarrow> be_val a < be_val b) \<and>
      (commitCollision a b = StayInitiator \<longleftrightarrow> commitCollision b a = BecomeResponder)"
    using ne by (auto simp add: compareCommit_def commitCollision_def Let_def)
  have p3: "compareCommit a b < 0 \<and> compareCommit b c < 0 \<longrightarrow> compareCommit a c < 0"
    by (auto simp add: compareCommit_def split: if_splits)
  show ?thesis using p1 p2 p3 by blast
qed

theorem commit_collision_resolved_witness:
  "compareCommit [1, 2] [1, 3] < 0 \<and> 0 < compareCommit [1, 3] [1, 2] \<and>
   commitCollision [1, 2] [1, 3] = BecomeResponder \<and>
   commitCollision [1, 3] [1, 2] = StayInitiator \<and>
   compareCommit [1, 3] [2, 0] < 0 \<and> compareCommit [1, 2] [2, 0] < 0 \<and>
   commitCollision [1, 2] [1, 2] = ErrorAndFail"
  using commit_collision_resolved [of "[1, 2]" "[1, 2]" "[1, 3]" "[2, 0]"]
    commit_collision_resolved [of "[1, 2]" "[1, 3]" "[1, 2]" "[2, 0]"]
    commit_collision_resolved [of "[1, 2]" "[1, 3]" "[2, 0]" "[2, 0]"]
  by (simp add: compareCommit_def commitCollision_def)

section \<open>Comparing ZIDs\<close>

lemma memcmp_same: "take n a = take n b \<Longrightarrow> memcmp a b n = 0"
proof (induction a b n rule: memcmp.induct)
  case (1 x xs y ys n)
  then show ?case by simp
qed simp_all

lemma memcmp_zero_iff:
  "n \<le> length a \<Longrightarrow> n \<le> length b \<Longrightarrow> memcmp a b n = 0 \<longleftrightarrow> take n a = take n b"
proof (induction a b n rule: memcmp.induct)
  case (1 x xs y ys n)
  then show ?case by auto
qed auto

section \<open>Opening the cache\<close>

text \<open>
  C6. On a cache whose file handle is not null, \<open>open\<close> with any name and any backend
  returns 0, which is not the error result -1, without calling the backend, and leaves
  the whole cache object, its file handle, stored file name and local ZID, as it was.
\<close>

theorem open_is_idempotent:
  "zidFile c \<noteq> None \<Longrightarrow> ZIDCacheDb_open cacheOps c nm = (0, c)"
  by (simp add: ZIDCacheDb_open_def)

section \<open>Records of the cache\<close>

text \<open>
  C2. When the first \<open>IDENTIFIER_LEN\<close> bytes of the requested ZID equal those of the
  cache's own local ZID, \<open>getRecord\<close> returns the empty pointer and the cache is left
  exactly as it was, whatever the backend: no backend operation is called.
\<close>

theorem getRecord_refuses_local_zid:
  "take IDENTIFIER_LEN zid = take IDENTIFIER_LEN (associatedZid c) \<Longrightarrow>
     getRecord cacheOps now c zid = (None, c)"
  by (simp add: getRecord_def memcmp_same)

lemma isValid_setValid: "isValid (setValid r)"
proof -
  have "(flags r OR Valid) AND Valid = Valid"
    by (rule bit_eqI) (auto simp add: bit_and_iff bit_or_iff)
  then show ?thesis by (simp add: isValid_def setValid_def)
qed

lemma aliceCache_eq:
  "aliceCache =
     \<lparr>zidFile = Some \<lparr>localZid = Some aliceZid, remotes = Map.empty, names = Map.empty\<rparr>,
      fileName = ''alice.db'', associatedZid = aliceZid\<rparr>"
  by (simp add: aliceCache_def ZIDCacheDb_open_def ZIDCacheDb_new_def memOps_def
      mem_openCache_def mem_readLocalZid_def aliceZid_def IDENTIFIER_LEN_def)

lemma first_open_succeeds:
  "fst (ZIDCacheDb_open (memOps aliceZid) ZIDCacheDb_new ''alice.db'') = 1"
  by (simp add: ZIDCacheDb_open_def ZIDCacheDb_new_def memOps_def
      mem_openCache_def mem_readLocalZid_def)

theorem open_is_idempotent_witness:
  "zidFile aliceCache \<noteq> None \<and>
   ZIDCacheDb_open (memOps aliceZid) aliceCache ''other.db'' = (0, aliceCache) \<and>
   fileName aliceCache = ''alice.db''"
proof -
  have h: "zidFile aliceCache \<noteq> None" by (simp add: aliceCache_eq)
  show ?thesis
    using h open_is_idempotent [OF h, of "memOps aliceZid" "''other.db''"]
    by (simp add: aliceCache_eq)
qed

theorem getRecord_refuses_local_zid_witness:
  "take IDENTIFIER_LEN aliceZid = take IDENTIFIER_LEN (associatedZid aliceCache) \<and>
   getRecord (memOps aliceZid) 1700000000 aliceCache aliceZid = (None, aliceCache)"
proof -
  have h: "take IDENTIFIER_LEN aliceZid = take IDENTIFIER_LEN (associatedZid aliceCache)"
    by (simp add: aliceCache_eq)
  show ?thesis
    using h getRecord_refuses_local_zid [OF h, of "memOps aliceZid" 1700000000] by simp
qed

lemma getRecord_mem_new:
  assumes op: "zidFile c = Some d"
    and diff: "memcmp (associatedZid c) zid IDENTIFIER_LEN \<noteq> 0"
    and none: "remotes d (zidKey (associatedZid c) zid) = None"
  shows "getRecord (memOps fresh) now c zid =
           (Some ((setValid (setZid zid ZIDRecordDb_new))\<lparr>secureSince := now\<rparr>),
            c\<lparr>zidFile := Some (d\<lparr>remotes := (remotes d)(zidKey (associatedZid c) zid \<mapsto>
               (setValid (setZid zid ZIDRecordDb_new))\<lparr>secureSince := now\<rparr>)\<rparr>)\<rparr>)"
proof -
  have rd: "mem_readRemoteZidRecord (Some d) zid (associatedZid c) ZIDRecordDb_new
              = ZIDRecordDb_new"
    using none by (simp add: mem_readRemoteZidRecord_def ZIDRecordDb_new_def)
  have nv: "\<not> isValid (setZid zid ZIDRecordDb_new)"
    by (simp add: isValid_def setZid_def ZIDRecordDb_new_def Valid_def)
  show ?thesis
    using diff nv op
    by (simp add: getRecord_def Let_def rd memOps_def mem_insertRemoteZidRecord_def)
qed

lemma getRecord_mem_invalid:
  assumes op: "zidFile c = Some d"
    and diff: "memcmp (associatedZid c) zid IDENTIFIER_LEN \<noteq> 0"
    and some: "remotes d (zidKey (associatedZid c) zid) = Some r"
    and inv: "\<not> isValid r"
  shows "getRecord (memOps fresh) now c zid =
           (Some ((setValid (setZid zid r))\<lparr>secureSince := now\<rparr>),
            c\<lparr>zidFile := Some (d\<lparr>remotes := (remotes d)(zidKey (associatedZid c) zid \<mapsto>
               (setValid (setZid zid r))\<lparr>secureSince := now\<rparr>)\<rparr>)\<rparr>)"
proof -
  have rd: "mem_readRemoteZidRecord (Some d) zid (associatedZid c) ZIDRecordDb_new = r"
    using some by (simp add: mem_readRemoteZidRecord_def)
  have nv: "\<not> isValid (setZid zid r)"
    using inv by (simp add: isValid_def setZid_def)
  show ?thesis
    using diff nv op
    by (simp add: getRecord_def Let_def rd memOps_def mem_insertRemoteZidRecord_def)
qed

lemma getRecord_mem_valid:
  assumes op: "zidFile c = Some d"
    and diff: "memcmp (associatedZid c) zid IDENTIFIER_LEN \<noteq> 0"
    and some: "remotes d (zidKey (associatedZid c) zid) = Some r"
    and val: "isValid r"
  shows "getRecord (memOps fresh) now c zid = (Some (setZid zid r), c)"
proof -
  have rd: "mem_readRemoteZidRecord (Some d) zid (associatedZid c) ZIDRecordDb_new = r"
    using some by (simp add: mem_readRemoteZidRecord_def)
  have v: "isValid (setZid zid r)"
    using val by (simp add: isValid_def setZid_def)
  show ?thesis
    using diff v op by (simp add: getRecord_def Let_def rd memOps_def)
qed

lemma new_record_fields:
  "isValid ((setValid (setZid zid r))\<lparr>secureSince := now\<rparr>) \<and>
   r_identifier ((setValid (setZid zid r))\<lparr>secureSince := now\<rparr>) = take IDENTIFIER_LEN zid \<and>
   secureSince ((setValid (setZid zid r))\<lparr>secureSince := now\<rparr>) = now"
proof -
  have "isValid (setValid (setZid zid r))" by (rule isValid_setValid)
  then have "isValid ((setValid (setZid zid r))\<lparr>secureSince := now\<rparr>)"
    by (simp add: isValid_def)
  then show ?thesis by (simp add: setValid_def setZid_def)
qed

text \<open>
  C3. On an open cache over the in-memory backend, for a peer ZID that differs from the
  local ZID (both of \<open>IDENTIFIER_LEN\<close> bytes or more): if the cache holds no valid
  record for the peer, \<open>getRecord\<close> returns a record whose Valid flag is set, whose ZID
  is the requested one and whose \<open>secureSince\<close> is the current time, and the cache
  afterwards holds exactly this record under the peer's ZID, everything else unchanged;
  if the cache holds a valid record of that peer, \<open>getRecord\<close> returns this record
  and the cache is unchanged.
\<close>

theorem getRecord_peer_zid:
  assumes "zidFile c = Some d"
    and "IDENTIFIER_LEN \<le> length zid" and "IDENTIFIER_LEN \<le> length (associatedZid c)"
    and "take IDENTIFIER_LEN zid \<noteq> take IDENTIFIER_LEN (associatedZid c)"
  shows
    "((\<forall>r. remotes d (zidKey (associatedZid c) zid) = Some r \<longrightarrow> \<not> isValid r) \<longrightarrow>
        (\<exists>rec. getRecord (memOps fresh) now c zid =
                 (Some rec,
                  c\<lparr>zidFile := Some (d\<lparr>remotes :=
                        (remotes d)(zidKey (associatedZid c) zid \<mapsto> rec)\<rparr>)\<rparr>) \<and>
               isValid rec \<and> r_identifier rec = take IDENTIFIER_LEN zid \<and>
               secureSince rec = now)) \<and>
     (\<forall>r. remotes d (zidKey (associatedZid c) zid) = Some r \<and> isValid r \<and>
          r_identifier r = take IDENTIFIER_LEN zid \<longrightarrow>
        getRecord (memOps fresh) now c zid = (Some r, c))"
proof -
  have diff: "memcmp (associatedZid c) zid IDENTIFIER_LEN \<noteq> 0"
    using assms(2-4) memcmp_zero_iff [of IDENTIFIER_LEN "associatedZid c" zid] by auto
  have a: "\<exists>rec. getRecord (memOps fresh) now c zid =
                 (Some rec,
                  c\<lparr>zidFile := Some (d\<lparr>remotes :=
                        (remotes d)(zidKey (associatedZid c) zid \<mapsto> rec)\<rparr>)\<rparr>) \<and>
               isValid rec \<and> r_identifier rec = take IDENTIFIER_LEN zid \<and>
               secureSince rec = now"
    if nv: "\<forall>r. remotes d (zidKey (associatedZid c) zid) = Some r \<longrightarrow> \<not> isValid r"
  proof (cases "remotes d (zidKey (associatedZid c) zid)")
    case None
    show ?thesis
      using getRecord_mem_new [OF assms(1) diff None, of fresh now]
        new_record_fields [where zid=zid and r=ZIDRecordDb_new and now=now] by blast
  next
    case (Some r)
    then have "\<not> isValid r" using nv by simp
    then show ?thesis
      using getRecord_mem_invalid [OF assms(1) diff Some, of fresh now]
        new_record_fields [where zid=zid and r=r and now=now] by blast
  qed
  have b: "getRecord (memOps fresh) now c zid = (Some r, c)"
    if "remotes d (zidKey (associatedZid c) zid) = Some r" "isValid r"
       "r_identifier r = take IDENTIFIER_LEN zid" for r
  proof -
    have "setZid zid r = r" using that(3) by (simp add: setZid_def)
    then show ?thesis using getRecord_mem_valid [OF assms(1) diff that(1,2), of fresh now] by simp
  qed
  show ?thesis using a b by blast
qed

lemma zids_differ: "take IDENTIFIER_LEN bobZid \<noteq> take IDENTIFIER_LEN aliceZid"
  by (simp add: IDENTIFIER_LEN_def aliceZid_def bobZid_def)

lemma zidKey_alice_bob: "zidKey aliceZid bobZid = (aliceZid, bobZid)"
  by (simp add: zidKey_def IDENTIFIER_LEN_def aliceZid_def bobZid_def)

theorem getRecord_peer_zid_witness:
  "getRecord (memOps aliceZid) 1700000000 aliceCache bobZid =
     (Some (bobRecord 1700000000), aliceCacheWithBob 1700000000) \<and>
   isValid (bobRecord 1700000000) \<and>
   r_identifier (bobRecord 1700000000) = bobZid \<and>
   secureSince (bobRecord 1700000000) = 1700000000 \<and>
   getRecord (memOps aliceZid) 1800000000 (aliceCacheWithBob 1700000000) bobZid =
     (Some (bobRecord 1700000000), aliceCacheWithBob 1700000000)"
proof -
  let ?d0 = "\<lparr>localZid = Some aliceZid, remotes = Map.empty, names = Map.empty\<rparr>"
  let ?d1 = "\<lparr>localZid = Some aliceZid, remotes = [(aliceZid, bobZid) \<mapsto> bobRecord 1700000000],
              names = Map.empty\<rparr>"
  have len: "IDENTIFIER_LEN \<le> length bobZid" "IDENTIFIER_LEN \<le> length aliceZid"
    by (simp_all add: IDENTIFIER_LEN_def aliceZid_def bobZid_def)
  have tb: "take IDENTIFIER_LEN bobZid = bobZid"
    by (simp add: IDENTIFIER_LEN_def bobZid_def)
  have v: "isValid (bobRecord 1700000000)"
    by (simp add: isValid_def bobRecord_def)
  have o0: "zidFile aliceCache = Some ?d0" by (simp add: aliceCache_eq)
  have a0: "associatedZid aliceCache = aliceZid" by (simp add: aliceCache_eq)
  have o1: "zidFile (aliceCacheWithBob 1700000000) = Some ?d1"
    by (simp add: aliceCacheWithBob_def)
  have a1: "associatedZid (aliceCacheWithBob 1700000000) = aliceZid"
    by (simp add: aliceCacheWithBob_def)
  have first:
    "\<exists>rec. getRecord (memOps aliceZid) 1700000000 aliceCache bobZid =
        (Some rec, aliceCache\<lparr>zidFile := Some (?d0\<lparr>remotes :=
            (remotes ?d0)(zidKey (associatedZid aliceCache) bobZid \<mapsto> rec)\<rparr>)\<rparr>) \<and>
        isValid rec \<and> r_identifier rec = take IDENTIFIER_LEN bobZid \<and> secureSince rec = 1700000000"
    using getRecord_peer_zid [OF o0 len(1), of aliceZid 1700000000] len(2) zids_differ
    by (simp add: a0)
  have ev: "getRecord (memOps aliceZid) 1700000000 aliceCache bobZid =
     (Some (bobRecord 1700000000), aliceCacheWithBob 1700000000)"
    using zids_differ len
    by (simp add: getRecord_def Let_def memcmp_zero_iff aliceCache_eq memOps_def
        mem_readRemoteZidRecord_def mem_insertRemoteZidRecord_def zidKey_alice_bob
        isValid_def setValid_def setZid_def tb bobRecord_def aliceCacheWithBob_def
        ZIDRecordDb_new_def Valid_def)
  have second: "getRecord (memOps aliceZid) 1800000000 (aliceCacheWithBob 1700000000) bobZid =
     (Some (bobRecord 1700000000), aliceCacheWithBob 1700000000)"
    using getRecord_peer_zid [OF o1 len(1), of aliceZid 1800000000] len(2) zids_differ v
    by (simp add: a1 zidKey_alice_bob tb bobRecord_def)
  show ?thesis using first ev second v by (simp add: bobRecord_def)
qed

section \<open>Peer names\<close>








text \<open>
  The length of the name is converted to the 32-bit \<open>nameLength\<close> before it is
  compared with 200: a name of \<open>2^31\<close> characters gives a negative \<open>nameLength\<close>,
  which the comparison lets through.
\<close>

lemma nameLength_wraps:
  assumes "length nm = 2 ^ 31"
  shows "sint (if 200 < sint (of_nat (length nm) :: int32_t) then 200
               else of_nat (length nm) :: int32_t) = - (2 ^ 31)"
proof -
  have "(of_nat (length nm) :: int32_t) = 2147483648" using assms by simp
  moreover have "sint (2147483648 :: int32_t) = - 2147483648" by simp
  ultimately show ?thesis by simp
qed












end
